theory Spec2Isabelle
  imports Complex_Main "HOL-Library.Char_ord" "HOL-Library.List_Lexorder"
    "HOL-Library.Option_ord" "HOL-Library.Product_Lexorder"
begin

section \<open>Data model\<close>

text \<open>
  The table \<^verbatim>\<open>readings (device_uuid TEXT, type TEXT, value INTEGER, date_created INTEGER)\<close>
  of \<^verbatim>\<open>app.py\<close>. Rows are kept in insertion order (the rowid order a plain scan
  follows). A column is \<open>None\<close> where the row holds NULL: the write handler binds
  Python's \<^verbatim>\<open>None\<close> for a key the request leaves out. The device id comes from the
  URL and the creation time from the clock, so both are always present.
\<close>

record reading =
  device_uuid :: string
  rtype :: "string option"
  rvalue :: "int option"
  date_created :: int

type_synonym db = "reading list"

text \<open>
  JSON values, for the request document (\<^verbatim>\<open>json.loads(request.data)\<close>) and for the
  response bodies (\<^verbatim>\<open>jsonify\<close>, or a dict returned to Flask). \<open>JNum\<close> is a float,
  idealised as a rational; booleans are outside the model.
\<close>

datatype json =
    JNull
  | JInt int
  | JNum rat
  | JStr string
  | JList "json list"
  | JObj "(string \<times> json) list"

datatype body = Text string | Json json

type_synonym response = "body \<times> nat"

text \<open>A value bound to a \<^verbatim>\<open>?\<close> placeholder: every parameter of the read handlers is a
  string of the request, or \<^verbatim>\<open>None\<close>.\<close>

datatype pyval = PyNone | PyStr string

section \<open>Predicate builders\<close>

text \<open>\<^verbatim>\<open>metric_query_builder\<close> (app.py, lines 62-82).\<close>

definition metric_query_builder ::
  "string option \<Rightarrow> string \<Rightarrow> string option \<Rightarrow> string option \<Rightarrow> string \<times> pyval list" where
  "metric_query_builder sensor_type query_template start end =
     (let params = [case sensor_type of None \<Rightarrow> PyNone | Some t \<Rightarrow> PyStr t];
          (params, query_template) =
            (case start of
               None \<Rightarrow> (params, query_template)
             | Some s \<Rightarrow> (params @ [PyStr s], query_template @ ''and date_created >= ?''));
          (params, query_template) =
            (case end of
               None \<Rightarrow> (params, query_template)
             | Some e \<Rightarrow> (params @ [PyStr e], query_template @ ''and date_created <= ?''))
      in (query_template, params))"

text \<open>\<^verbatim>\<open>query_builder\<close>, local to the listing handler (app.py, lines 120-144).\<close>

definition query_builder ::
  "string option \<Rightarrow> string \<Rightarrow> string option \<Rightarrow> string option \<Rightarrow> string \<times> pyval list" where
  "query_builder sensor_type query_template start end =
     (let params = [];
          (params, query_template) =
            (case sensor_type of
               None \<Rightarrow> (params, query_template)
             | Some t \<Rightarrow> (params @ [PyStr t], query_template @ ''and type = ?''));
          (params, query_template) =
            (case start of
               None \<Rightarrow> (params, query_template)
             | Some s \<Rightarrow> (params @ [PyStr s], query_template @ ''and date_created >= ?''));
          (params, query_template) =
            (case end of
               None \<Rightarrow> (params, query_template)
             | Some e \<Rightarrow> (params @ [PyStr e], query_template @ ''and date_created <= ?''))
      in (query_template, params))"

section \<open>The storage engine on the generated queries\<close>

text \<open>
  SQLite reads a statement as tokens, so \<^verbatim>\<open>device_uuid=?and type = ?\<close> is the same
  predicate as its spaced-out form. The tokens the generated statements use:
  words (keywords, column and function names, numbers), the placeholder and the
  comparison operators; any other character is a token of its own.
\<close>

datatype token = TWord string | TParam | TEq | TGe | TLe | TSym char

definition is_word_char :: "char \<Rightarrow> bool" where
  "is_word_char c =
     ((CHR ''a'' \<le> c \<and> c \<le> CHR ''z'') \<or> (CHR ''A'' \<le> c \<and> c \<le> CHR ''Z'') \<or>
      (CHR ''0'' \<le> c \<and> c \<le> CHR ''9'') \<or> c = CHR ''_'')"

definition flush :: "string \<Rightarrow> token list" where
  "flush w = (if w = [] then [] else [TWord (rev w)])"

fun tokenize :: "string \<Rightarrow> string \<Rightarrow> token list" where
  "tokenize w [] = flush w"
| "tokenize w (c # cs) =
     (if is_word_char c then tokenize (c # w) cs
      else if c = CHR '' '' then flush w @ tokenize [] cs
      else if c = CHR ''?'' then flush w @ TParam # tokenize [] cs
      else if c = CHR ''='' then flush w @ TEq # tokenize [] cs
      else if c = CHR ''>'' \<and> cs \<noteq> [] \<and> hd cs = CHR ''='' then flush w @ TGe # tokenize [] (tl cs)
      else if c = CHR ''<'' \<and> cs \<noteq> [] \<and> hd cs = CHR ''='' then flush w @ TLe # tokenize [] (tl cs)
      else flush w @ TSym c # tokenize [] cs)"

text \<open>The conditions of a WHERE clause: a column compared with a placeholder.\<close>

datatype column = ColDevice | ColType | ColDate

datatype cmp = CmpEq | CmpGe | CmpLe

fun column_of :: "string \<Rightarrow> column option" where
  "column_of w =
     (if w = ''device_uuid'' then Some ColDevice
      else if w = ''type'' then Some ColType
      else if w = ''date_created'' then Some ColDate
      else None)"

fun cmp_of :: "token \<Rightarrow> cmp option" where
  "cmp_of TEq = Some CmpEq"
| "cmp_of TGe = Some CmpGe"
| "cmp_of TLe = Some CmpLe"
| "cmp_of _ = None"

text \<open>
  \<open>parse_conds\<close> reads \<^verbatim>\<open>col op ? {and col op ?}\<close> up to the end of the statement
  or to \<^verbatim>\<open>group\<close>; anything else is a statement this model does not read (\<open>None\<close>).
\<close>

fun parse_conds :: "token list \<Rightarrow> (column \<times> cmp) list option" where
  "parse_conds (TWord c # op # TParam # rest) =
     (case (column_of c, cmp_of op) of
        (Some col, Some cm) \<Rightarrow>
          (case rest of
             [] \<Rightarrow> Some [(col, cm)]
           | TWord k # rest' \<Rightarrow>
               (if k = ''and'' then map_option ((#) (col, cm)) (parse_conds rest')
                else if k = ''group'' then Some [(col, cm)]
                else None)
           | _ \<Rightarrow> None)
      | _ \<Rightarrow> None)"
| "parse_conds _ = None"

fun after_where :: "token list \<Rightarrow> token list option" where
  "after_where [] = None"
| "after_where (t # ts) = (if t = TWord ''where'' then Some ts else after_where ts)"

definition where_conds :: "string \<Rightarrow> (column \<times> cmp) list option" where
  "where_conds query = (case after_where (tokenize [] query) of None \<Rightarrow> None | Some ts \<Rightarrow> parse_conds ts)"

subsection \<open>Integer text\<close>

text \<open>
  A bound of the time range reaches SQLite as text (\<^verbatim>\<open>request.args.get\<close> returns a
  string). Compared with the INTEGER column \<^verbatim>\<open>date_created\<close>, text that reads as an
  integer is converted to that integer; text that is no number stays text, and every
  integer sorts before every text. Text that reads as a fraction or carries an exponent
  is not modelled: the bounds of this interface are epoch integers.
\<close>

definition is_digit :: "char \<Rightarrow> bool" where
  "is_digit c = (CHR ''0'' \<le> c \<and> c \<le> CHR ''9'')"

definition digit_value :: "char \<Rightarrow> nat" where
  "digit_value c = of_char c - 48"

fun digits_value :: "nat \<Rightarrow> string \<Rightarrow> nat" where
  "digits_value acc [] = acc"
| "digits_value acc (c # cs) = digits_value (10 * acc + digit_value c) cs"

definition digits_nat :: "string \<Rightarrow> nat option" where
  "digits_nat s = (if s \<noteq> [] \<and> list_all is_digit s then Some (digits_value 0 s) else None)"

fun integer_text :: "string \<Rightarrow> int option" where
  "integer_text [] = None"
| "integer_text (c # cs) =
     (if c = CHR ''-'' then map_option (\<lambda>n. - int n) (digits_nat cs)
      else if c = CHR ''+'' then map_option int (digits_nat cs)
      else map_option int (digits_nat (c # cs)))"

text \<open>Python's \<^verbatim>\<open>str\<close> on an integer, which is how a client writes an epoch bound.\<close>

definition digit_char :: "nat \<Rightarrow> char" where
  "digit_char d = ''0123456789'' ! d"

fun str_nat :: "nat \<Rightarrow> string" where
  "str_nat n = (if n < 10 then [digit_char n] else str_nat (n div 10) @ [digit_char (n mod 10)])"

definition str_int :: "int \<Rightarrow> string" where
  "str_int i = (if i < 0 then CHR ''-'' # str_nat (nat (- i)) else str_nat (nat i))"

subsection \<open>Evaluating a condition on a row\<close>

text \<open>
  A comparison with NULL on either side is not true, so the row is left out. The
  generated statements compare the two TEXT columns for equality only, and the
  INTEGER column with \<^verbatim>\<open>>=\<close> and \<^verbatim>\<open><=\<close>; the other pairs are outside the model
  (\<open>None\<close>).
\<close>

fun cmp_int :: "cmp \<Rightarrow> int \<Rightarrow> int \<Rightarrow> bool" where
  "cmp_int CmpEq a b = (a = b)"
| "cmp_int CmpGe a b = (a \<ge> b)"
| "cmp_int CmpLe a b = (a \<le> b)"

fun cmp_int_text :: "cmp \<Rightarrow> bool" where
  "cmp_int_text CmpEq = False"
| "cmp_int_text CmpGe = False"
| "cmp_int_text CmpLe = True"

fun eval_cond :: "column \<times> cmp \<Rightarrow> pyval \<Rightarrow> reading \<Rightarrow> bool option" where
  "eval_cond (col, cm) PyNone r = Some False"
| "eval_cond (ColDevice, CmpEq) (PyStr s) r = Some (device_uuid r = s)"
| "eval_cond (ColType, CmpEq) (PyStr s) r = Some (rtype r = Some s)"
| "eval_cond (ColDate, cm) (PyStr s) r =
     Some (case integer_text s of
             Some n \<Rightarrow> cmp_int cm (date_created r) n
           | None \<Rightarrow> cmp_int_text cm)"
| "eval_cond _ _ r = None"

fun eval_conds :: "(column \<times> cmp) list \<Rightarrow> pyval list \<Rightarrow> reading \<Rightarrow> bool option" where
  "eval_conds [] [] r = Some True"
| "eval_conds (c # cs) (p # ps) r =
     (case eval_cond c p r of
        None \<Rightarrow> None
      | Some b \<Rightarrow> map_option (\<lambda>b'. b \<and> b') (eval_conds cs ps r))"
| "eval_conds _ _ r = None"

text \<open>
  \<^verbatim>\<open>cur.execute(query, params)\<close> as far as the WHERE clause goes: the rows of the
  table the conditions keep, in table order. \<open>None\<close> is a \<^verbatim>\<open>sqlite3.Error\<close> (a
  statement that does not parse, a wrong number of bindings).
\<close>

definition execute_where :: "db \<Rightarrow> string \<Rightarrow> pyval list \<Rightarrow> reading list option" where
  "execute_where d query params =
     (case where_conds query of
        None \<Rightarrow> None
      | Some conds \<Rightarrow>
          (if length conds \<noteq> length params then None
           else if list_all (\<lambda>r. eval_conds conds params r \<noteq> None) d
           then Some (filter (\<lambda>r. eval_conds conds params r = Some True) d)
           else None))"

section \<open>Listing handler\<close>

text \<open>\<^verbatim>\<open>x or None\<close> on an optional string: the empty string is falsy.\<close>

definition or_None :: "string option \<Rightarrow> string option" where
  "or_None a = (case a of None \<Rightarrow> None | Some s \<Rightarrow> if s = [] then None else Some s)"

definition row_json :: "reading \<Rightarrow> json" where
  "row_json r =
     JObj [(''device_uuid'', JStr (device_uuid r)),
           (''type'', case rtype r of None \<Rightarrow> JNull | Some t \<Rightarrow> JStr t),
           (''value'', case rvalue r of None \<Rightarrow> JNull | Some v \<Rightarrow> JInt v),
           (''date_created'', JInt (date_created r))]"

text \<open>
  The GET branch of \<^verbatim>\<open>request_device_readings\<close> (app.py, lines 146-163). The three
  optional arguments are \<^verbatim>\<open>request.args.get('type')\<close>, \<^verbatim>\<open>('start')\<close> and
  \<^verbatim>\<open>('end')\<close>. The execute call is not guarded, so a \<^verbatim>\<open>sqlite3.Error\<close> would
  surface as Flask's 500 page.
\<close>

definition request_device_readings_GET ::
  "db \<Rightarrow> string \<Rightarrow> string option \<Rightarrow> string option \<Rightarrow> string option \<Rightarrow> response" where
  "request_device_readings_GET d dev arg_type arg_start arg_end =
     (let query_template = ''select * from readings where device_uuid=?'';
          sensor_type = or_None arg_type;
          epoch_start = or_None arg_start;
          epoch_end = or_None arg_end;
          (get_query, params) = query_builder sensor_type query_template epoch_start epoch_end;
          params_tuple = PyStr dev # params
      in case execute_where d get_query params_tuple of
           None \<Rightarrow> (Text ''Internal Server Error'', 500)
         | Some rows \<Rightarrow> (Json (JList (map row_json rows)), 200))"

section \<open>Write handler\<close>

text \<open>
  The rules of Cerberus that \<^verbatim>\<open>write_schema\<close> uses. A \<^verbatim>\<open>Validator\<close> built with
  no options rejects a key the schema does not name (\<^verbatim>\<open>allow_unknown\<close> is off),
  requires no key (\<^verbatim>\<open>required\<close> is off), rejects a null value (\<^verbatim>\<open>nullable\<close> is
  off) and accepts an empty string (\<^verbatim>\<open>empty\<close> is on).
\<close>

datatype rule = RType string | RMin int | RMax int

fun check_rule :: "rule \<Rightarrow> json \<Rightarrow> bool" where
  "check_rule (RType t) v =
     (if t = ''string'' then (case v of JStr _ \<Rightarrow> True | _ \<Rightarrow> False)
      else if t = ''integer'' then (case v of JInt _ \<Rightarrow> True | _ \<Rightarrow> False)
      else False)"
| "check_rule (RMin m) v =
     (case v of JInt n \<Rightarrow> m \<le> n | JNum q \<Rightarrow> of_int m \<le> q | _ \<Rightarrow> True)"
| "check_rule (RMax m) v =
     (case v of JInt n \<Rightarrow> n \<le> m | JNum q \<Rightarrow> q \<le> of_int m | _ \<Rightarrow> True)"

definition validate :: "(string \<times> rule list) list \<Rightarrow> (string \<times> json) list \<Rightarrow> bool" where
  "validate schema document =
     list_all (\<lambda>(k, v). case map_of schema k of
                           None \<Rightarrow> False
                         | Some rules \<Rightarrow> v \<noteq> JNull \<and> list_all (\<lambda>r. check_rule r v) rules)
       document"

definition write_schema :: "(string \<times> rule list) list" where
  "write_schema =
     [(''type'', [RType ''string'']),
      (''value'', [RType ''integer'', RMin 0, RMax 100])]"

text \<open>How a Python value is bound to a column of the insert: \<^verbatim>\<open>None\<close> is NULL, a string
  goes to a TEXT column and an integer to an INTEGER column as they are. After
  validation nothing else reaches the insert (lemma \<open>valid_post_inserts\<close>); the other
  bindings are outside the model (the outer \<open>None\<close>).\<close>

fun bind_text :: "json option \<Rightarrow> string option option" where
  "bind_text None = Some None"
| "bind_text (Some JNull) = Some None"
| "bind_text (Some (JStr s)) = Some (Some s)"
| "bind_text _ = None"

fun bind_integer :: "json option \<Rightarrow> int option option" where
  "bind_integer None = Some None"
| "bind_integer (Some JNull) = Some None"
| "bind_integer (Some (JInt n)) = Some (Some n)"
| "bind_integer _ = None"

text \<open>
  The POST branch of \<^verbatim>\<open>request_device_readings\<close> (app.py, lines 91-117).
  \<open>post_data\<close> is the request's JSON object, \<open>now\<close> is \<^verbatim>\<open>int(time.time())\<close>. The
  result is the table after the call and the response.
\<close>

definition request_device_readings_POST ::
  "db \<Rightarrow> string \<Rightarrow> (string \<times> json) list \<Rightarrow> int \<Rightarrow> db \<times> response" where
  "request_device_readings_POST d dev post_data now =
     (let is_valid = validate write_schema post_data
      in if \<not> is_valid then (d, (Text ''invalid input'', 400))
         else
           let sensor_type = map_of post_data ''type'';
               value = map_of post_data ''value'';
               date_created = (case map_of post_data ''date_created'' of
                                 None \<Rightarrow> JInt now
                               | Some t \<Rightarrow> t)
           in case (bind_text sensor_type, bind_integer value, bind_integer (Some date_created)) of
                (Some ty, Some v, Some (Some t)) \<Rightarrow>
                  (d @ [\<lparr>device_uuid = dev, rtype = ty, rvalue = v, date_created = t\<rparr>],
                   (Text ''success'', 201))
              | _ \<Rightarrow> (d, (Text ''Internal Server Error'', 500)))"

section \<open>Percentile aggregate\<close>

text \<open>
  \<^verbatim>\<open>np.nanpercentile(a, q, interpolation='midpoint')\<close> on a flat array of numbers, as
  NumPy computes it: the virtual index \<^verbatim>\<open>q/100 * (Nx - 1)\<close> is replaced by the mean
  of its floor and its ceiling, and the result weighs the two neighbouring order
  statistics by the fractional part of that index. Floats are idealised as rationals,
  which is exact for the percentiles this program asks for (25, 50, 75) on integer
  readings. \<open>Raises\<close> stands for the exception NumPy raises (a percentile outside
  0..100, an array holding \<^verbatim>\<open>None\<close>), \<open>Nan\<close> for the result on an empty array.
\<close>

datatype np_result = Raises | Nan | Float rat

definition np_nanpercentile_midpoint :: "rat list \<Rightarrow> rat \<Rightarrow> np_result" where
  "np_nanpercentile_midpoint a q =
     (if q < 0 \<or> 100 < q then Raises
      else if a = [] then Nan
      else
        let ap = sort a;
            Nx = length a;
            indices = q / 100 * of_nat (Nx - 1);
            indices = (of_int \<lfloor>indices\<rfloor> + of_int \<lceil>indices\<rceil>) / 2;
            indices_below = nat \<lfloor>indices\<rfloor>;
            indices_above = min (indices_below + 1) (Nx - 1);
            weights_above = indices - of_nat indices_below;
            weights_below = 1 - weights_above
        in Float (ap ! indices_below * weights_below + ap ! indices_above * weights_above))"

text \<open>The class \<^verbatim>\<open>Percentile\<close> (app.py, lines 45-58). The attribute \<open>percentile\<close>
  starts as the empty string, here \<open>None\<close>.\<close>

record Percentile =
  arr :: "int option list"
  percentile :: "rat option"

definition Percentile_init :: Percentile where
  "Percentile_init = \<lparr>arr = [], percentile = None\<rparr>"

definition step :: "Percentile \<Rightarrow> int option \<Rightarrow> rat \<Rightarrow> Percentile" where
  "step self v per = self\<lparr>arr := arr self @ [v], percentile := Some per\<rparr>"

definition finalize :: "Percentile \<Rightarrow> np_result" where
  "finalize self =
     (case percentile self of
        None \<Rightarrow> Raises
      | Some per \<Rightarrow>
          if list_all (\<lambda>v. v \<noteq> None) (arr self)
          then np_nanpercentile_midpoint (map (\<lambda>v. of_int (the v)) (arr self)) per
          else Raises)"

text \<open>
  \<^verbatim>\<open>percentile(value, per)\<close> in a select list, over the values of one group: SQLite
  creates the object at the first row, calls \<open>step\<close> once per row and \<open>finalize\<close> at the
  end. With no row nothing is called and the aggregate is NULL. An exception in
  \<open>finalize\<close> makes the statement fail with a \<^verbatim>\<open>sqlite3.Error\<close> (\<open>None\<close>).
\<close>

definition run_Percentile :: "int option list \<Rightarrow> rat \<Rightarrow> np_result" where
  "run_Percentile vs per = finalize (foldl (\<lambda>self v. step self v per) Percentile_init vs)"

definition sql_percentile :: "int option list \<Rightarrow> rat \<Rightarrow> json option" where
  "sql_percentile vs per =
     (if vs = [] then Some JNull
      else case run_Percentile vs per of
             Float x \<Rightarrow> Some (JNum x)
           | Nan \<Rightarrow> Some JNull
           | Raises \<Rightarrow> None)"


section \<open>Built-in aggregates\<close>

text \<open>SQLite's \<^verbatim>\<open>max\<close>, \<^verbatim>\<open>min\<close> and \<^verbatim>\<open>avg\<close> skip NULL and are NULL when no value is
  left; \<^verbatim>\<open>round(x, 2)\<close> rounds half away from zero and keeps NULL. Reals are
  idealised as rationals.\<close>

definition non_null :: "int option list \<Rightarrow> int list" where
  "non_null vs = map the (filter (\<lambda>v. v \<noteq> None) vs)"

definition sql_max :: "int option list \<Rightarrow> json" where
  "sql_max vs = (case non_null vs of [] \<Rightarrow> JNull | x # xs \<Rightarrow> JInt (Max (set (x # xs))))"

definition sql_min :: "int option list \<Rightarrow> json" where
  "sql_min vs = (case non_null vs of [] \<Rightarrow> JNull | x # xs \<Rightarrow> JInt (Min (set (x # xs))))"

definition sql_round :: "rat \<Rightarrow> nat \<Rightarrow> rat" where
  "sql_round x n =
     (if x < 0 then - (of_int \<lfloor>- x * 10 ^ n + 1 / 2\<rfloor> / 10 ^ n)
      else of_int \<lfloor>x * 10 ^ n + 1 / 2\<rfloor> / 10 ^ n)"

definition sql_round_avg :: "int option list \<Rightarrow> json" where
  "sql_round_avg vs =
     (case non_null vs of
        [] \<Rightarrow> JNull
      | x # xs \<Rightarrow> JNum (sql_round (of_int (sum_list (x # xs)) / of_nat (length (x # xs))) 2))"

text \<open>
  \<^verbatim>\<open>select value ... group by value order by count(*) desc\<close>: one row per distinct
  value (NULL is a group of its own), the groups taken in ascending order of the value
  and then sorted, stably, by falling count. SQLite does not promise an order among
  groups of equal count; no theorem below depends on the one chosen here.
\<close>

definition group_by_value_order_by_count_desc :: "int option list \<Rightarrow> int option list" where
  "group_by_value_order_by_count_desc vs =
     sort_key (\<lambda>k. - int (count_list vs k)) (sort (remdups vs))"

definition fetchone :: "'a list \<Rightarrow> 'a option" where
  "fetchone rows = (case rows of [] \<Rightarrow> None | r # _ \<Rightarrow> Some r)"

section \<open>Aggregate handlers\<close>

text \<open>
  Each handler takes \<^verbatim>\<open>request.args.get\<close> of \<^verbatim>\<open>type\<close>, \<^verbatim>\<open>start\<close> and \<^verbatim>\<open>end\<close>. The
  select list of a template is a literal of the handler, so its meaning is written
  with the aggregates above; the WHERE clause is read from the text the builder
  returns. A select list of aggregates with no GROUP BY yields one row whatever the
  filter keeps.
\<close>

definition request_device_readings_max ::
  "db \<Rightarrow> string \<Rightarrow> string option \<Rightarrow> string option \<Rightarrow> string option \<Rightarrow> response" where
  "request_device_readings_max d dev arg_type arg_start arg_end =
     (let sensor_type = arg_type
      in if sensor_type = None then (Text ''sensor type is required'', 400)
         else
           let epoch_start = arg_start;
               epoch_end = arg_end;
               max_query_template =
                 ''select max(value) as value from readings where device_uuid=? and type=? '';
               (max_query, params) =
                 metric_query_builder sensor_type max_query_template epoch_start epoch_end;
               params_tuple = PyStr dev # params
           in case execute_where d max_query params_tuple of
                None \<Rightarrow> (Text ''Error getting max value'', 500)
              | Some rows \<Rightarrow>
                  (case fetchone [[sql_max (map rvalue rows)]] of
                     None \<Rightarrow> (Json (JObj [(''value'', JStr ''Null'')]), 200)
                   | Some row \<Rightarrow> (Json (JObj (zip [''value''] row)), 200)))"

definition request_device_readings_min ::
  "db \<Rightarrow> string \<Rightarrow> string option \<Rightarrow> string option \<Rightarrow> string option \<Rightarrow> response" where
  "request_device_readings_min d dev arg_type arg_start arg_end =
     (let sensor_type = arg_type
      in if sensor_type = None then (Text ''sensor type is required'', 400)
         else
           let epoch_start = arg_start;
               epoch_end = arg_end;
               min_query_template =
                 ''select min(value) as value from readings where device_uuid=? and type=? '';
               (min_query, params) =
                 metric_query_builder sensor_type min_query_template epoch_start epoch_end;
               params_tuple = PyStr dev # params
           in case execute_where d min_query params_tuple of
                None \<Rightarrow> (Text ''Error getting min value'', 500)
              | Some rows \<Rightarrow>
                  (case fetchone [[sql_min (map rvalue rows)]] of
                     None \<Rightarrow> (Json (JObj [(''value'', JStr ''null'')]), 200)
                   | Some row \<Rightarrow> (Json (JObj (zip [''value''] row)), 200)))"

definition request_device_readings_median ::
  "db \<Rightarrow> string \<Rightarrow> string option \<Rightarrow> string option \<Rightarrow> string option \<Rightarrow> response" where
  "request_device_readings_median d dev arg_type arg_start arg_end =
     (let sensor_type = arg_type
      in if sensor_type = None then (Text ''sensor type is required'', 400)
         else
           let epoch_start = arg_start;
               epoch_end = arg_end;
               median_query_template =
                 ''select percentile(value, 50) as value from readings where device_uuid=? and type=? '';
               (median_query, params) =
                 metric_query_builder sensor_type median_query_template epoch_start epoch_end;
               params_tuple = PyStr dev # params
           in case execute_where d median_query params_tuple of
                None \<Rightarrow> (Text ''Error getting max value'', 500)
              | Some rows \<Rightarrow>
                  (case sql_percentile (map rvalue rows) 50 of
                     None \<Rightarrow> (Text ''Error getting max value'', 500)
                   | Some v \<Rightarrow>
                       (case fetchone [[v]] of
                          None \<Rightarrow> (Json (JObj [(''value'', JStr ''null'')]), 200)
                        | Some row \<Rightarrow> (Json (JObj (zip [''value''] row)), 200))))"

definition request_device_readings_mean ::
  "db \<Rightarrow> string \<Rightarrow> string option \<Rightarrow> string option \<Rightarrow> string option \<Rightarrow> response" where
  "request_device_readings_mean d dev arg_type arg_start arg_end =
     (let sensor_type = arg_type
      in if sensor_type = None then (Text ''sensor type is required'', 400)
         else
           let epoch_start = arg_start;
               epoch_end = arg_end;
               mean_query_template =
                 ''select round(avg(value),2) as value from readings where device_uuid=? and type=? '';
               (mean_query, params) =
                 metric_query_builder sensor_type mean_query_template epoch_start epoch_end;
               params_tuple = PyStr dev # params
           in case execute_where d mean_query params_tuple of
                None \<Rightarrow> (Text ''Error getting mean value'', 500)
              | Some rows \<Rightarrow>
                  (case fetchone [[sql_round_avg (map rvalue rows)]] of
                     None \<Rightarrow> (Json (JObj [(''value'', JStr ''null'')]), 200)
                   | Some row \<Rightarrow> (Json (JObj (zip [''value''] row)), 200)))"

definition cell :: "int option \<Rightarrow> json" where
  "cell v = (case v of None \<Rightarrow> JNull | Some n \<Rightarrow> JInt n)"

definition request_device_readings_mode ::
  "db \<Rightarrow> string \<Rightarrow> string option \<Rightarrow> string option \<Rightarrow> string option \<Rightarrow> response" where
  "request_device_readings_mode d dev arg_type arg_start arg_end =
     (let sensor_type = arg_type
      in if sensor_type = None then (Text ''sensor type is required'', 400)
         else
           let epoch_start = arg_start;
               epoch_end = arg_end;
               mode_query_template =
                 ''select value as value from readings where device_uuid=? and type=? '';
               (mode_query, params) =
                 metric_query_builder sensor_type mode_query_template epoch_start epoch_end;
               params_tuple = PyStr dev # params
           in case execute_where d (mode_query @ ''group by value order by count(*) desc'')
                     params_tuple of
                None \<Rightarrow> (Text ''Error getting mode value'', 500)
              | Some rows \<Rightarrow>
                  (case fetchone (map (\<lambda>v. [cell v])
                          (group_by_value_order_by_count_desc (map rvalue rows))) of
                     None \<Rightarrow> (Json (JObj [(''value'', JStr ''null'')]), 200)
                   | Some row \<Rightarrow> (Json (JObj (zip [''value''] row)), 200)))"

text \<open>The quartiles handler does not test the row; were there none, \<^verbatim>\<open>zip\<close> would
  raise and Flask would answer 500.\<close>

definition request_device_readings_quartiles ::
  "db \<Rightarrow> string \<Rightarrow> string option \<Rightarrow> string option \<Rightarrow> string option \<Rightarrow> response" where
  "request_device_readings_quartiles d dev arg_type arg_start arg_end =
     (let sensor_type = arg_type
      in if sensor_type = None then (Text ''sensor type is required'', 400)
         else
           let epoch_start = arg_start;
               epoch_end = arg_end;
               quartile_query_template =
                 ''select percentile(value, 25) as quartile_1, percentile(value, 75) as quartile_3 from '' @
                 ''readings where device_uuid=? and type=? '';
               (quartile_query, params) =
                 metric_query_builder sensor_type quartile_query_template epoch_start epoch_end;
               params_tuple = PyStr dev # params
           in case execute_where d quartile_query params_tuple of
                None \<Rightarrow> (Text ''Error getting max value'', 500)
              | Some rows \<Rightarrow>
                  (case (sql_percentile (map rvalue rows) 25, sql_percentile (map rvalue rows) 75) of
                     (Some q1, Some q3) \<Rightarrow>
                       (case fetchone [[q1, q3]] of
                          None \<Rightarrow> (Text ''Internal Server Error'', 500)
                        | Some row \<Rightarrow> (Json (JObj (zip [''quartile_1'', ''quartile_3''] row)), 200))
                   | _ \<Rightarrow> (Text ''Error getting max value'', 500)))"

section \<open>Summary handler\<close>






section \<open>The vocabulary of the specification\<close>

text \<open>
  The filter of the specification: a device, an optional sensor type and an optional
  inclusive time range, all of which a reading has to satisfy.
\<close>

definition matches :: "string \<Rightarrow> string option \<Rightarrow> int option \<Rightarrow> int option \<Rightarrow> reading \<Rightarrow> bool" where
  "matches dev ty lo hi r =
     (device_uuid r = dev \<and>
      (case ty of None \<Rightarrow> True | Some t \<Rightarrow> rtype r = Some t) \<and>
      (case lo of None \<Rightarrow> True | Some s \<Rightarrow> s \<le> date_created r) \<and>
      (case hi of None \<Rightarrow> True | Some e \<Rightarrow> date_created r \<le> e))"

text \<open>A row as the tests insert it: every column present.\<close>

definition test_row :: "string \<Rightarrow> string \<Rightarrow> int \<Rightarrow> int \<Rightarrow> reading" where
  "test_row dev t v c = \<lparr>device_uuid = dev, rtype = Some t, rvalue = Some v, date_created = c\<rparr>"

text \<open>The conditions and the parameters that the two time bounds contribute.\<close>

definition bound_conds :: "'a option \<Rightarrow> 'b option \<Rightarrow> (column \<times> cmp) list" where
  "bound_conds s e =
     (case s of None \<Rightarrow> [] | Some _ \<Rightarrow> [(ColDate, CmpGe)]) @
     (case e of None \<Rightarrow> [] | Some _ \<Rightarrow> [(ColDate, CmpLe)])"

definition bound_params :: "string option \<Rightarrow> string option \<Rightarrow> pyval list" where
  "bound_params s e =
     (case s of None \<Rightarrow> [] | Some x \<Rightarrow> [PyStr x]) @
     (case e of None \<Rightarrow> [] | Some x \<Rightarrow> [PyStr x])"


section \<open>Auxiliary facts\<close>

declare str_nat.simps [simp del]

lemma less_ten_cases:
  "(d::nat) < 10 \<Longrightarrow> d = 0 \<or> d = 1 \<or> d = 2 \<or> d = 3 \<or> d = 4 \<or> d = 5 \<or> d = 6 \<or> d = 7 \<or> d = 8 \<or> d = 9"
  by arith

lemma digit_char_is_digit: "d < 10 \<Longrightarrow> is_digit (digit_char d)"
  by (drule less_ten_cases) (auto simp: is_digit_def digit_char_def less_eq_char_def)

lemma digit_value_char: "d < 10 \<Longrightarrow> digit_value (digit_char d) = d"
  by (drule less_ten_cases) (auto simp: digit_value_def digit_char_def)

lemma str_nat_digits: "str_nat n \<noteq> [] \<and> list_all is_digit (str_nat n)"
proof (induction n rule: str_nat.induct)
  case (1 n)
  show ?case
  proof (cases "n < 10")
    case True
    then show ?thesis by (simp add: str_nat.simps [of n] digit_char_is_digit)
  next
    case False
    with 1 show ?thesis by (simp add: str_nat.simps [of n] digit_char_is_digit)
  qed
qed

lemma digits_value_snoc:
  "digits_value acc (xs @ [c]) = 10 * digits_value acc xs + digit_value c"
  by (induction xs arbitrary: acc) simp_all

lemma digits_value_str_nat: "digits_value 0 (str_nat n) = n"
proof (induction n rule: str_nat.induct)
  case (1 n)
  show ?case
  proof (cases "n < 10")
    case True
    then show ?thesis by (simp add: str_nat.simps [of n] digit_value_char)
  next
    case False
    with 1 show ?thesis
      by (simp add: str_nat.simps [of n] digits_value_snoc digit_value_char)
  qed
qed

lemma digits_nat_str_nat: "digits_nat (str_nat n) = Some n"
  by (simp add: digits_nat_def str_nat_digits digits_value_str_nat)

lemma str_nat_no_sign: "str_nat n = c # cs \<Longrightarrow> c \<noteq> CHR ''-'' \<and> c \<noteq> CHR ''+''"
proof -
  assume h: "str_nat n = c # cs"
  have "list_all is_digit (str_nat n)" by (simp add: str_nat_digits)
  with h have "is_digit c" by simp
  then show ?thesis by (auto simp: is_digit_def less_eq_char_def)
qed

lemma integer_text_str_nat: "integer_text (str_nat n) = Some (int n)"
proof (cases "str_nat n")
  case Nil
  then show ?thesis using str_nat_digits [of n] by simp
next
  case (Cons c cs)
  then have "c \<noteq> CHR ''-'' \<and> c \<noteq> CHR ''+''" by (rule str_nat_no_sign)
  moreover have "digits_nat (c # cs) = Some n" using Cons digits_nat_str_nat [of n] by simp
  ultimately show ?thesis using Cons by simp
qed

lemma integer_text_str_int: "integer_text (str_int i) = Some i"
proof (cases "i < 0")
  case True
  then show ?thesis by (simp add: str_int_def digits_nat_str_nat)
next
  case False
  then show ?thesis by (simp add: str_int_def integer_text_str_nat)
qed

lemma str_int_nonempty: "str_int i \<noteq> []"
  using str_nat_digits by (simp add: str_int_def)

lemma or_None_str_int: "or_None (map_option str_int b) = map_option str_int b"
  by (cases b) (simp_all add: or_None_def str_int_nonempty)

subsection \<open>Builders\<close>

lemma query_builder_text:
  "fst (query_builder t q s e) =
     q @ (case t of None \<Rightarrow> [] | Some _ \<Rightarrow> ''and type = ?'') @
         (case s of None \<Rightarrow> [] | Some _ \<Rightarrow> ''and date_created >= ?'') @
         (case e of None \<Rightarrow> [] | Some _ \<Rightarrow> ''and date_created <= ?'')"
  by (cases t; cases s; cases e) (simp_all add: query_builder_def)

lemma query_builder_params:
  "snd (query_builder t q s e) =
     (case t of None \<Rightarrow> [] | Some x \<Rightarrow> [PyStr x]) @ bound_params s e"
  by (cases t; cases s; cases e) (simp_all add: query_builder_def bound_params_def)

lemma metric_query_builder_text:
  "fst (metric_query_builder t q s e) =
     q @ (case s of None \<Rightarrow> [] | Some _ \<Rightarrow> ''and date_created >= ?'') @
         (case e of None \<Rightarrow> [] | Some _ \<Rightarrow> ''and date_created <= ?'')"
  by (cases s; cases e) (simp_all add: metric_query_builder_def)

lemma metric_query_builder_params:
  "snd (metric_query_builder t q s e) =
     (case t of None \<Rightarrow> PyNone | Some x \<Rightarrow> PyStr x) # bound_params s e"
  by (cases s; cases e) (simp_all add: metric_query_builder_def bound_params_def)

subsection \<open>Reading the generated statements\<close>

lemma where_conds_list:
  "where_conds (fst (query_builder t ''select * from readings where device_uuid=?'' s e)) =
     Some ((ColDevice, CmpEq) # (case t of None \<Rightarrow> [] | Some _ \<Rightarrow> [(ColType, CmpEq)]) @ bound_conds s e)"
  by (cases t; cases s; cases e)
     (simp_all add: query_builder_def where_conds_def is_word_char_def flush_def bound_conds_def)

lemma where_conds_max:
  "where_conds (fst (metric_query_builder t
      ''select max(value) as value from readings where device_uuid=? and type=? '' s e)) =
     Some ((ColDevice, CmpEq) # (ColType, CmpEq) # bound_conds s e)"
  by (cases s; cases e)
     (simp_all add: metric_query_builder_def where_conds_def is_word_char_def flush_def bound_conds_def)

lemma where_conds_min:
  "where_conds (fst (metric_query_builder t
      ''select min(value) as value from readings where device_uuid=? and type=? '' s e)) =
     Some ((ColDevice, CmpEq) # (ColType, CmpEq) # bound_conds s e)"
  by (cases s; cases e)
     (simp_all add: metric_query_builder_def where_conds_def is_word_char_def flush_def bound_conds_def)

lemma where_conds_median:
  "where_conds (fst (metric_query_builder t
      ''select percentile(value, 50) as value from readings where device_uuid=? and type=? '' s e)) =
     Some ((ColDevice, CmpEq) # (ColType, CmpEq) # bound_conds s e)"
  by (cases s; cases e)
     (simp_all add: metric_query_builder_def where_conds_def is_word_char_def flush_def bound_conds_def)

lemma where_conds_mean:
  "where_conds (fst (metric_query_builder t
      ''select round(avg(value),2) as value from readings where device_uuid=? and type=? '' s e)) =
     Some ((ColDevice, CmpEq) # (ColType, CmpEq) # bound_conds s e)"
  by (cases s; cases e)
     (simp_all add: metric_query_builder_def where_conds_def is_word_char_def flush_def bound_conds_def)

lemma where_conds_mode:
  "where_conds (fst (metric_query_builder t
      ''select value as value from readings where device_uuid=? and type=? '' s e) @
      ''group by value order by count(*) desc'') =
     Some ((ColDevice, CmpEq) # (ColType, CmpEq) # bound_conds s e)"
  by (cases s; cases e)
     (simp_all add: metric_query_builder_def where_conds_def is_word_char_def flush_def bound_conds_def)

lemma where_conds_quartiles:
  "where_conds (fst (metric_query_builder t
      (''select percentile(value, 25) as quartile_1, percentile(value, 75) as quartile_3 from '' @
       ''readings where device_uuid=? and type=? '') s e)) =
     Some ((ColDevice, CmpEq) # (ColType, CmpEq) # bound_conds s e)"
  by (cases s; cases e)
     (simp_all add: metric_query_builder_def where_conds_def is_word_char_def flush_def bound_conds_def)

subsection \<open>Executing them\<close>

lemma eval_bounds:
  "eval_conds (bound_conds lo hi)
     (bound_params (map_option str_int lo) (map_option str_int hi)) r =
   Some ((case lo of None \<Rightarrow> True | Some s \<Rightarrow> s \<le> date_created r) \<and>
         (case hi of None \<Rightarrow> True | Some e \<Rightarrow> date_created r \<le> e))"
  by (cases lo; cases hi) (simp_all add: bound_conds_def bound_params_def integer_text_str_int)

lemma length_bounds: "length (bound_conds s e) = length (bound_params s e)"
  by (cases s; cases e) (simp_all add: bound_conds_def bound_params_def)

lemma execute_where_filter:
  assumes "where_conds q = Some conds"
    and "length conds = length params"
    and "\<And>r. eval_conds conds params r = Some (P r)"
  shows "execute_where d q params = Some (filter P d)"
  using assms by (simp add: execute_where_def list_all_iff)

lemma execute_list:
  "execute_where d
     (fst (query_builder ty ''select * from readings where device_uuid=?''
        (map_option str_int lo) (map_option str_int hi)))
     (PyStr dev # snd (query_builder ty ''select * from readings where device_uuid=?''
        (map_option str_int lo) (map_option str_int hi))) =
   Some (filter (matches dev ty lo hi) d)"
proof (rule execute_where_filter [OF where_conds_list])
  show "length ((ColDevice, CmpEq) # (case ty of None \<Rightarrow> [] | Some _ \<Rightarrow> [(ColType, CmpEq)]) @
          bound_conds (map_option str_int lo) (map_option str_int hi)) =
        length (PyStr dev # snd (query_builder ty ''select * from readings where device_uuid=?''
          (map_option str_int lo) (map_option str_int hi)))"
    by (cases ty) (simp_all add: query_builder_params length_bounds)
next
  fix r
  have b: "bound_conds (map_option str_int lo) (map_option str_int hi) = bound_conds lo hi"
    by (cases lo; cases hi) (simp_all add: bound_conds_def)
  show "eval_conds ((ColDevice, CmpEq) # (case ty of None \<Rightarrow> [] | Some _ \<Rightarrow> [(ColType, CmpEq)]) @
          bound_conds (map_option str_int lo) (map_option str_int hi))
        (PyStr dev # snd (query_builder ty ''select * from readings where device_uuid=?''
          (map_option str_int lo) (map_option str_int hi))) r = Some (matches dev ty lo hi r)"
    by (cases ty) (auto simp add: query_builder_params b eval_bounds matches_def)
qed

lemma execute_metric:
  assumes w: "\<And>s e. where_conds (fst (metric_query_builder (Some t) T s e) @ sfx) =
            Some ((ColDevice, CmpEq) # (ColType, CmpEq) # bound_conds s e)"
  shows "execute_where d
     (fst (metric_query_builder (Some t) T (map_option str_int lo) (map_option str_int hi)) @ sfx)
     (PyStr dev # snd (metric_query_builder (Some t) T (map_option str_int lo) (map_option str_int hi))) =
   Some (filter (matches dev (Some t) lo hi) d)"
proof (rule execute_where_filter [OF w])
  show "length ((ColDevice, CmpEq) # (ColType, CmpEq) #
          bound_conds (map_option str_int lo) (map_option str_int hi)) =
        length (PyStr dev # snd (metric_query_builder (Some t) T
          (map_option str_int lo) (map_option str_int hi)))"
    by (simp add: metric_query_builder_params length_bounds)
next
  fix r
  have b: "bound_conds (map_option str_int lo) (map_option str_int hi) = bound_conds lo hi"
    by (cases lo; cases hi) (simp_all add: bound_conds_def)
  show "eval_conds ((ColDevice, CmpEq) # (ColType, CmpEq) #
          bound_conds (map_option str_int lo) (map_option str_int hi))
        (PyStr dev # snd (metric_query_builder (Some t) T
          (map_option str_int lo) (map_option str_int hi))) r = Some (matches dev (Some t) lo hi r)"
    by (auto simp add: metric_query_builder_params b eval_bounds matches_def)
qed

lemma list_readings_rows:
  "request_device_readings_GET d dev ty (map_option str_int lo) (map_option str_int hi) =
     (Json (JList (map row_json (filter (matches dev (or_None ty) lo hi) d))), 200)"
  using execute_list [of d "or_None ty" lo hi dev]
  by (simp add: request_device_readings_GET_def or_None_str_int split_beta)

subsection \<open>Validation\<close>

lemma validate_rejects:
  assumes "(k, v) \<in> set post_data"
    and "\<not> (case map_of schema k of None \<Rightarrow> False
             | Some rules \<Rightarrow> v \<noteq> JNull \<and> list_all (\<lambda>r. check_rule r v) rules)"
  shows "\<not> validate schema post_data"
  using assms by (auto simp: validate_def list_all_iff)


lemma valid_post_inserts:
  assumes "validate write_schema post_data"
  shows "\<exists>ty v. request_device_readings_POST d dev post_data now =
           (d @ [\<lparr>device_uuid = dev, rtype = ty, rvalue = v, date_created = now\<rparr>],
            (Text ''success'', 201))"
proof -
  have all: "\<And>k x. (k, x) \<in> set post_data \<Longrightarrow>
      (k = ''type'' \<and> (\<exists>s. x = JStr s)) \<or> (k = ''value'' \<and> (\<exists>n. x = JInt n))"
    using assms
    by (fastforce simp: validate_def write_schema_def list_all_iff split: if_splits json.splits)
  have no_date: "map_of post_data ''date_created'' = None"
  proof (cases "map_of post_data ''date_created''")
    case (Some x)
    then have "(''date_created'', x) \<in> set post_data" by (rule map_of_SomeD)
    then show ?thesis using all by fastforce
  qed simp
  have ty: "\<exists>t. bind_text (map_of post_data ''type'') = Some t"
  proof (cases "map_of post_data ''type''")
    case (Some x)
    then have "(''type'', x) \<in> set post_data" by (rule map_of_SomeD)
    then obtain s where "x = JStr s" using all by fastforce
    then show ?thesis using Some by simp
  qed simp
  have v: "\<exists>n. bind_integer (map_of post_data ''value'') = Some n"
  proof (cases "map_of post_data ''value''")
    case (Some x)
    then have "(''value'', x) \<in> set post_data" by (rule map_of_SomeD)
    then obtain n where "x = JInt n" using all by fastforce
    then show ?thesis using Some by simp
  qed simp
  from ty v no_date assms show ?thesis
    by (auto simp: request_device_readings_POST_def)
qed

subsection \<open>Percentiles\<close>
















subsection \<open>Aggregate handlers on epoch bounds\<close>

lemma max_response:
  "request_device_readings_max d dev (Some t) (map_option str_int lo) (map_option str_int hi) =
     (Json (JObj [(''value'', sql_max (map rvalue (filter (matches dev (Some t) lo hi) d)))]), 200)"
  using execute_metric [of t _ "[]" d lo hi dev, simplified, OF where_conds_max]
  by (simp add: request_device_readings_max_def split_beta fetchone_def)

lemma min_response:
  "request_device_readings_min d dev (Some t) (map_option str_int lo) (map_option str_int hi) =
     (Json (JObj [(''value'', sql_min (map rvalue (filter (matches dev (Some t) lo hi) d)))]), 200)"
  using execute_metric [of t _ "[]" d lo hi dev, simplified, OF where_conds_min]
  by (simp add: request_device_readings_min_def split_beta fetchone_def)

lemma mean_response:
  "request_device_readings_mean d dev (Some t) (map_option str_int lo) (map_option str_int hi) =
     (Json (JObj [(''value'', sql_round_avg (map rvalue (filter (matches dev (Some t) lo hi) d)))]), 200)"
  using execute_metric [of t _ "[]" d lo hi dev, simplified, OF where_conds_mean]
  by (simp add: request_device_readings_mean_def split_beta fetchone_def)

lemma median_response:
  "request_device_readings_median d dev (Some t) (map_option str_int lo) (map_option str_int hi) =
     (case sql_percentile (map rvalue (filter (matches dev (Some t) lo hi) d)) 50 of
        None \<Rightarrow> (Text ''Error getting max value'', 500)
      | Some v \<Rightarrow> (Json (JObj [(''value'', v)]), 200))"
  using execute_metric [of t _ "[]" d lo hi dev, simplified, OF where_conds_median]
  by (simp add: request_device_readings_median_def split_beta fetchone_def split: option.splits)

lemma quartiles_response:
  "request_device_readings_quartiles d dev (Some t) (map_option str_int lo) (map_option str_int hi) =
     (case (sql_percentile (map rvalue (filter (matches dev (Some t) lo hi) d)) 25,
            sql_percentile (map rvalue (filter (matches dev (Some t) lo hi) d)) 75) of
        (Some q1, Some q3) \<Rightarrow> (Json (JObj [(''quartile_1'', q1), (''quartile_3'', q3)]), 200)
      | _ \<Rightarrow> (Text ''Error getting max value'', 500))"
  using execute_metric [of t _ "[]" d lo hi dev, simplified, OF where_conds_quartiles]
  by (simp add: request_device_readings_quartiles_def split_beta fetchone_def split: option.splits)

lemma mode_response:
  "request_device_readings_mode d dev (Some t) (map_option str_int lo) (map_option str_int hi) =
     (case group_by_value_order_by_count_desc (map rvalue (filter (matches dev (Some t) lo hi) d)) of
        [] \<Rightarrow> (Json (JObj [(''value'', JStr ''null'')]), 200)
      | v # _ \<Rightarrow> (Json (JObj [(''value'', cell v)]), 200))"
  using execute_metric [of t _ "''group by value order by count(*) desc''" d lo hi dev,
      OF where_conds_mode]
  by (simp add: request_device_readings_mode_def split_beta fetchone_def split: list.splits)

subsection \<open>The first group of a scan ordered by falling count\<close>

lemma sort_key_head_min:
  assumes "sort_key f ks = h # rest"
  shows "h \<in> set ks" and "\<And>k. k \<in> set ks \<Longrightarrow> f h \<le> f k"
proof -
  have s: "set (sort_key f ks) = set ks" by simp
  then show "h \<in> set ks" using assms by auto
  have "sorted (map f (sort_key f ks))" by (rule sorted_sort_key)
  then have "\<forall>k \<in> set rest. f h \<le> f k" using assms by simp
  then show "\<And>k. k \<in> set ks \<Longrightarrow> f h \<le> f k" using s assms by auto
qed

lemma mode_groups_empty: "group_by_value_order_by_count_desc [] = []"
  by (simp add: group_by_value_order_by_count_desc_def)

lemma mode_groups_head:
  assumes "m \<in> set vs"
    and "\<And>w. w \<in> set vs \<Longrightarrow> w \<noteq> m \<Longrightarrow> count_list vs w < count_list vs m"
  shows "\<exists>rest. group_by_value_order_by_count_desc vs = m # rest"
proof -
  let ?f = "\<lambda>k. - int (count_list vs k)"
  let ?ks = "sort (remdups vs)"
  have ks: "set ?ks = set vs" by simp
  have "sort_key ?f ?ks \<noteq> []"
    using assms(1) ks by (metis empty_iff empty_set set_sort)
  then obtain h rest where hr: "sort_key ?f ?ks = h # rest"
    by (cases "sort_key ?f ?ks") auto
  have hin: "h \<in> set vs" using sort_key_head_min(1) [OF hr] ks by simp
  have "?f h \<le> ?f m" using sort_key_head_min(2) [OF hr] assms(1) ks by simp
  then have "count_list vs m \<le> count_list vs h" by simp
  then have "h = m" using assms(2) [OF hin] by fastforce
  then show ?thesis using hr by (simp add: group_by_value_order_by_count_desc_def)
qed

subsection \<open>Aggregates over no rows\<close>

lemma aggregates_of_nothing:
  "sql_max [] = JNull" "sql_min [] = JNull" "sql_round_avg [] = JNull"
  "sql_percentile [] p = Some JNull"
  by (simp_all add: sql_max_def sql_min_def sql_round_avg_def sql_percentile_def non_null_def)

subsection \<open>Groups of the summary\<close>










subsection \<open>The summary of the test fixture\<close>





section \<open>The claims\<close>



text \<open>
  \<^bold>\<open>C2.\<close> A write whose value is an integer below 0 or above 100 is answered with
  400 (\<^verbatim>\<open>invalid input\<close>) and the table after the call is the table before it,
  whatever else the request holds.
\<close>

theorem record_out_of_range_rejected:
  assumes "map_of post_data ''value'' = Some (JInt v)"
    and "v < 0 \<or> 100 < v"
  shows "request_device_readings_POST d dev post_data now = (d, (Text ''invalid input'', 400))"
proof -
  have mem: "(''value'', JInt v) \<in> set post_data"
    using assms(1) by (rule map_of_SomeD)
  have "\<not> validate write_schema post_data"
    using assms(2) by (intro validate_rejects [OF mem]) (auto simp: write_schema_def)
  then show ?thesis
    by (simp add: request_device_readings_POST_def)
qed

theorem record_out_of_range_rejected_witness:
  "request_device_readings_POST [\<lparr>device_uuid = ''dev1'', rtype = Some ''temperature'', rvalue = Some 22,
       date_created = 5\<rparr>] ''dev1'' [(''type'', JStr ''temperature''), (''value'', JInt 130)] 7 =
     ([\<lparr>device_uuid = ''dev1'', rtype = Some ''temperature'', rvalue = Some 22, date_created = 5\<rparr>],
      (Text ''invalid input'', 400)) \<and>
   request_device_readings_POST [] ''dev1'' [(''type'', JStr ''temperature''), (''value'', JInt (- 20))] 7 =
     ([], (Text ''invalid input'', 400))"
  using record_out_of_range_rejected [of "[(''type'', JStr ''temperature''), (''value'', JInt 130)]" 130
      "[\<lparr>device_uuid = ''dev1'', rtype = Some ''temperature'', rvalue = Some 22, date_created = 5\<rparr>]"
      "''dev1''" 7]
    record_out_of_range_rejected [of "[(''type'', JStr ''temperature''), (''value'', JInt (- 20))]" "- 20"
      "[]" "''dev1''" 7]
  by simp





text \<open>
  \<^bold>\<open>C5.\<close> The write handler does not enforce the stated input contract. A request
  that supplies a valid sensor type, a value in range and an explicit integer
  \<open>date_created\<close> is rejected with 400 and nothing is stored, because the schema does
  not name that key; a request with no sensor type, or with the empty string as sensor
  type, is accepted and stored. Only the request that leaves \<open>date_created\<close> out is
  stored with the time of the clock.
\<close>

theorem record_contract_divergence:
  "request_device_readings_POST d dev
     [(''type'', JStr ''temperature''), (''value'', JInt 50), (''date_created'', JInt 1600000000)] now =
     (d, (Text ''invalid input'', 400)) \<and>
   request_device_readings_POST d dev [(''value'', JInt 50)] now =
     (d @ [\<lparr>device_uuid = dev, rtype = None, rvalue = Some 50, date_created = now\<rparr>],
      (Text ''success'', 201)) \<and>
   request_device_readings_POST d dev [(''type'', JStr ''''), (''value'', JInt 50)] now =
     (d @ [\<lparr>device_uuid = dev, rtype = Some '''', rvalue = Some 50, date_created = now\<rparr>],
      (Text ''success'', 201)) \<and>
   request_device_readings_POST d dev [(''type'', JStr ''temperature''), (''value'', JInt 50)] now =
     (d @ [\<lparr>device_uuid = dev, rtype = Some ''temperature'', rvalue = Some 50, date_created = now\<rparr>],
      (Text ''success'', 201))"
  by (simp add: request_device_readings_POST_def validate_def write_schema_def)

theorem record_contract_divergence_witness:
  "request_device_readings_POST [] ''dev1''
     [(''type'', JStr ''temperature''), (''value'', JInt 50), (''date_created'', JInt 1600000000)]
     1700000000 = ([], (Text ''invalid input'', 400)) \<and>
   request_device_readings_POST [] ''dev1'' [(''value'', JInt 50)] 1700000000 =
     ([\<lparr>device_uuid = ''dev1'', rtype = None, rvalue = Some 50, date_created = 1700000000\<rparr>],
      (Text ''success'', 201))"
  using record_contract_divergence [of "[]" "''dev1''" 1700000000]
  by simp

text \<open>
  \<^bold>\<open>C6.\<close> On a filter that matches no stored reading every aggregate answers 200,
  but not with one sentinel: min, max, mean and median answer the JSON null under
  \<^verbatim>\<open>value\<close>, the quartiles an object of two nulls, and the mode the string
  \<^verbatim>\<open>"null"\<close>. The branch \<^verbatim>\<open>if row is None\<close> that holds the string is reached by the
  mode only, whose grouped statement yields no row; the ungrouped aggregates always
  yield one row, of NULL.
\<close>

theorem empty_result_sentinels:
  assumes "filter (matches dev (Some t) lo hi) d = []"
  shows "request_device_readings_min d dev (Some t) (map_option str_int lo) (map_option str_int hi) =
           (Json (JObj [(''value'', JNull)]), 200) \<and>
         request_device_readings_max d dev (Some t) (map_option str_int lo) (map_option str_int hi) =
           (Json (JObj [(''value'', JNull)]), 200) \<and>
         request_device_readings_mean d dev (Some t) (map_option str_int lo) (map_option str_int hi) =
           (Json (JObj [(''value'', JNull)]), 200) \<and>
         request_device_readings_median d dev (Some t) (map_option str_int lo) (map_option str_int hi) =
           (Json (JObj [(''value'', JNull)]), 200) \<and>
         request_device_readings_quartiles d dev (Some t) (map_option str_int lo) (map_option str_int hi) =
           (Json (JObj [(''quartile_1'', JNull), (''quartile_3'', JNull)]), 200) \<and>
         request_device_readings_mode d dev (Some t) (map_option str_int lo) (map_option str_int hi) =
           (Json (JObj [(''value'', JStr ''null'')]), 200)"
  using assms
  by (simp add: min_response max_response mean_response median_response quartiles_response
      mode_response aggregates_of_nothing mode_groups_empty)

theorem empty_result_sentinels_witness:
  "request_device_readings_max [test_row ''other_uuid'' ''temperature'' 22 200] ''test_device''
     (Some ''temperature'') None None = (Json (JObj [(''value'', JNull)]), 200) \<and>
   request_device_readings_mode [test_row ''other_uuid'' ''temperature'' 22 200] ''test_device''
     (Some ''temperature'') None None = (Json (JObj [(''value'', JStr ''null'')]), 200)"
proof -
  have e: "filter (matches ''test_device'' (Some ''temperature'') None None)
             [test_row ''other_uuid'' ''temperature'' 22 200] = []"
    by (simp add: matches_def test_row_def)
  note w = empty_result_sentinels [OF e]
  from w show ?thesis by simp
qed

text \<open>
  \<^bold>\<open>C7.\<close> The mode is the most frequent value. When among the values of the readings
  that match the filter one value occurs strictly more often than every other, the mode
  handler answers 200 with that value; on the stored values 22, 50, 100, 22 of the test
  it answers 22.
\<close>

theorem mode_returns_most_frequent:
  assumes "vs = map rvalue (filter (matches dev (Some t) lo hi) d)"
    and "Some m \<in> set vs"
    and "\<forall>w \<in> set vs. w \<noteq> Some m \<longrightarrow> count_list vs w < count_list vs (Some m)"
  shows "request_device_readings_mode d dev (Some t) (map_option str_int lo) (map_option str_int hi) =
           (Json (JObj [(''value'', JInt m)]), 200)"
proof -
  obtain rest where "group_by_value_order_by_count_desc vs = Some m # rest"
    using mode_groups_head [of "Some m" vs] assms(2,3) by blast
  then show ?thesis
    using assms(1) by (simp add: mode_response cell_def)
qed

theorem mode_returns_most_frequent_witness:
  "request_device_readings_mode
     [test_row ''test_device'' ''temperature'' 22 100, test_row ''test_device'' ''temperature'' 50 150,
      test_row ''test_device'' ''humidity'' 50 150, test_row ''test_device'' ''temperature'' 100 200,
      test_row ''other_uuid'' ''temperature'' 22 200, test_row ''test_device'' ''temperature'' 22 80]
     ''test_device'' (Some ''temperature'') None None =
   (Json (JObj [(''value'', JInt 22)]), 200)"
proof -
  let ?d = "[test_row ''test_device'' ''temperature'' 22 100, test_row ''test_device'' ''temperature'' 50 150,
      test_row ''test_device'' ''humidity'' 50 150, test_row ''test_device'' ''temperature'' 100 200,
      test_row ''other_uuid'' ''temperature'' 22 200, test_row ''test_device'' ''temperature'' 22 80]"
  have v: "map rvalue (filter (matches ''test_device'' (Some ''temperature'') None None) ?d) =
             [Some 22, Some 50, Some 100, Some 22]"
    by (simp add: matches_def test_row_def)
  have a: "[Some 22, Some 50, Some 100, Some 22] =
             map rvalue (filter (matches ''test_device'' (Some ''temperature'') None None) ?d)"
    by (simp only: v)
  have b: "Some 22 \<in> set [Some 22, Some 50, Some 100, Some (22 :: int)]"
    by simp
  have c: "\<forall>w \<in> set [Some 22, Some 50, Some 100, Some (22 :: int)]. w \<noteq> Some 22 \<longrightarrow>
             count_list [Some 22, Some 50, Some 100, Some 22] w <
             count_list [Some 22, Some 50, Some 100, Some 22] (Some 22)"
    by simp
  from mode_returns_most_frequent [OF a b c] show ?thesis by simp
qed



text \<open>
  \<^bold>\<open>C9.\<close> The predicate builders never put a filter value into the clause text. Two
  filters that agree on which of sensor type, start and end are present yield the same
  text from \<open>query_builder\<close> and from \<open>metric_query_builder\<close>, whatever the values are;
  the values are returned as the parameters only, in the order sensor type, start, end.
\<close>

theorem builder_text_independent_of_values:
  assumes "(t1 = None) = (t2 = None)" and "(s1 = None) = (s2 = None)" and "(e1 = None) = (e2 = None)"
  shows "fst (query_builder t1 q s1 e1) = fst (query_builder t2 q s2 e2) \<and>
         fst (metric_query_builder t1 q s1 e1) = fst (metric_query_builder t2 q s2 e2) \<and>
         snd (query_builder t1 q s1 e1) =
           (case t1 of None \<Rightarrow> [] | Some x \<Rightarrow> [PyStr x]) @
           (case s1 of None \<Rightarrow> [] | Some x \<Rightarrow> [PyStr x]) @
           (case e1 of None \<Rightarrow> [] | Some x \<Rightarrow> [PyStr x]) \<and>
         snd (metric_query_builder t1 q s1 e1) =
           (case t1 of None \<Rightarrow> PyNone | Some x \<Rightarrow> PyStr x) #
           (case s1 of None \<Rightarrow> [] | Some x \<Rightarrow> [PyStr x]) @
           (case e1 of None \<Rightarrow> [] | Some x \<Rightarrow> [PyStr x])"
  using assms
  by (auto simp: query_builder_text metric_query_builder_text query_builder_params
        metric_query_builder_params bound_params_def split: option.splits)

theorem builder_text_independent_of_values_witness:
  "fst (query_builder (Some ''temperature'') ''select * from readings where device_uuid=?'' (Some ''5'') None) =
     fst (query_builder (Some ''x or 1=1'') ''select * from readings where device_uuid=?'' (Some ''0; drop'') None) \<and>
   snd (query_builder (Some ''temperature'') ''select * from readings where device_uuid=?'' (Some ''5'') None) =
     [PyStr ''temperature'', PyStr ''5'']"
  using builder_text_independent_of_values [of "Some ''temperature''" "Some ''x or 1=1''"
      "Some ''5''" "Some ''0; drop''" None None "''select * from readings where device_uuid=?''"]
  by simp

text \<open>
  \<^bold>\<open>C10.\<close> The listing treats an empty sensor type as no type filter. For every table,
  device and pair of bounds, the request with \<^verbatim>\<open>type=\<close> empty gets the response of
  the request without \<^verbatim>\<open>type\<close>; with epoch bounds that is the readings of the device
  in range, of every sensor type.
\<close>

theorem empty_type_filter_is_absent:
  "request_device_readings_GET d dev (Some '''') s e = request_device_readings_GET d dev None s e \<and>
   request_device_readings_GET d dev (Some '''') (map_option str_int lo) (map_option str_int hi) =
     (Json (JList (map row_json (filter (matches dev None lo hi) d))), 200)"
  using list_readings_rows [of d dev "Some ''''" lo hi]
  by (simp add: request_device_readings_GET_def or_None_def)

theorem empty_type_filter_is_absent_witness:
  "request_device_readings_GET [test_row ''d'' ''temperature'' 22 100, test_row ''d'' ''humidity'' 50 150,
       test_row ''d'' [] 3 160, test_row ''o'' ''temperature'' 22 200] ''d'' (Some '''') None None =
   (Json (JList [row_json (test_row ''d'' ''temperature'' 22 100), row_json (test_row ''d'' ''humidity'' 50 150),
       row_json (test_row ''d'' [] 3 160)]), 200)"
  using empty_type_filter_is_absent [THEN conjunct2, of "[test_row ''d'' ''temperature'' 22 100, test_row ''d'' ''humidity'' 50 150,
       test_row ''d'' [] 3 160, test_row ''o'' ''temperature'' 22 200]" "''d''" None None]
  by (simp add: matches_def test_row_def)

end
